theory Spec2Isabelle
  imports Complex_Main "HOL-Library.Word"
begin

section \<open>The TSNE operator of caffe2\_bhtsne (src/tsne\_op.cpp)\<close>

text \<open>
  The repository's one source file is an adapter: it registers Barnes-Hut t-SNE as an
  operator of the Caffe2 framework. The embedding follows the file top to bottom: the
  constructor of \<open>TSNEOp\<close> (lines 40-57), \<open>RunOnDevice\<close> (lines 61-110) and the operator
  schema (lines 131-157). Exceptions are values of a sum type, the workspace of blobs is an
  explicit store passed in and returned, and C++ \<open>int\<close> is \<open>int\<close>: the adapter does no
  arithmetic on its integers, it only compares and forwards them.
\<close>

subsection \<open>Errors\<close>

text \<open>
  \<open>CAFFE_ENFORCE\<close> throws the framework's \<open>EnforceNotMet\<close> exception with the given
  message (line 51: "If this is not met, an exception is going to be thrown").
  \<open>InvalidConfiguration\<close> is the signal of the embedding routine itself (see \<open>run\<close>).
\<close>

datatype error = EnforceNotMet string | InvalidConfiguration

subsection \<open>Tensors and the workspace\<close>

text \<open>
  The framework's headers (caffe2/core/context.h, caffe2/core/operator.h) are not among
  the sources. A tensor is modelled by what the adapter asks of it: its extents
  (\<open>ndim\<close>, \<open>dim32\<close>, \<open>Resize\<close>), its element type (\<open>IsType\<close>) and its storage
  (\<open>data\<close>, \<open>mutable_data\<close>). A stored element is the 64-bit pattern of a double; the
  adapter never looks at one. Extents are taken to fit a C++ \<open>int\<close>.
\<close>

datatype TypeMeta = NoType | TDouble | TFloat | TInt

type_synonym double = "64 word"

record TensorCPU =
  tdims :: "int list"
  tmeta :: TypeMeta
  tdata :: "double list"

definition ndim :: "TensorCPU \<Rightarrow> nat" where
  "ndim t = length (tdims t)"

definition IsType_double :: "TensorCPU \<Rightarrow> bool" where
  "IsType_double t = (tmeta t = TDouble)"

text \<open>\<open>dim32\<close> is only called below an \<open>ndim\<close> check that puts the index in range.\<close>

definition dim32 :: "TensorCPU \<Rightarrow> nat \<Rightarrow> int" where
  "dim32 t i = tdims t ! i"

definition tsize :: "TensorCPU \<Rightarrow> int" where
  "tsize t = prod_list (tdims t)"

text \<open>
  \<open>Resize\<close> sets the extents (line 85: "reshape it to the correct shape"). The storage
  survives when the number of elements does not change and is dropped otherwise.
\<close>

definition Resize :: "TensorCPU \<Rightarrow> int list \<Rightarrow> TensorCPU" where
  "Resize t ds =
     (if prod_list ds = tsize t then t\<lparr>tdims := ds\<rparr>
      else t\<lparr>tdims := ds, tdata := []\<rparr>)"

text \<open>
  \<open>mutable_data<double>\<close> "gives the underlying storage, and also, if necessary, does the
  actual memory allocation" (lines 98-99). Fresh storage is uninitialised in C++; the
  model fills it with zero patterns.
\<close>

definition mutable_data_double :: "TensorCPU \<Rightarrow> TensorCPU" where
  "mutable_data_double t =
     (if tmeta t = TDouble \<and> int (length (tdata t)) = tsize t then t
      else t\<lparr>tmeta := TDouble, tdata := replicate (nat (tsize t)) 0\<rparr>)"

definition data_double :: "TensorCPU \<Rightarrow> double list" where
  "data_double t = tdata t"

text \<open>
  The workspace "hosts all of the blobs" (line 39). It is the store of the model: a blob
  name is an address, two names that are equal denote the same storage. A blob nobody
  has filled holds the empty tensor of no type.
\<close>

type_synonym Workspace = "string \<Rightarrow> TensorCPU"

definition empty_tensor :: TensorCPU where
  "empty_tensor = \<lparr>tdims = [], tmeta = NoType, tdata = []\<rparr>"

subsection \<open>Operator definitions and the schema (lines 131-157)\<close>

text \<open>
  An \<open>OperatorDef\<close> names the input and output blobs and carries the arguments, here
  split by their type: \<open>OP_SINGLE_ARG(int, ...)\<close> reads an integer argument,
  \<open>OP_SINGLE_ARG(float, ...)\<close> a float one. A float argument is modelled by the real
  number it denotes; passing a float where \<open>run\<close> takes a double does not change it.
\<close>

record OperatorDef =
  def_input :: "string list"
  def_output :: "string list"
  int_args :: "string \<Rightarrow> int option"
  float_args :: "string \<Rightarrow> real option"

text \<open>\<open>OP_SINGLE_ARG(type, name, member, default)\<close>: the argument, or the default when
  the definition has none of that name.\<close>

definition OP_SINGLE_ARG_int :: "OperatorDef \<Rightarrow> string \<Rightarrow> int \<Rightarrow> int" where
  "OP_SINGLE_ARG_int operator_def name default_value =
     (case int_args operator_def name of None \<Rightarrow> default_value | Some v \<Rightarrow> v)"

definition OP_SINGLE_ARG_float :: "OperatorDef \<Rightarrow> string \<Rightarrow> real \<Rightarrow> real" where
  "OP_SINGLE_ARG_float operator_def name default_value =
     (case float_args operator_def name of None \<Rightarrow> default_value | Some v \<Rightarrow> v)"

record OpSchema =
  min_input :: nat
  max_input :: nat
  min_output :: nat
  max_output :: nat
  inplace_allowed :: "(nat \<times> nat) list"
  inplace_enforced :: "(nat \<times> nat) list"

text \<open>\<open>OPERATOR_SCHEMA(TSNE).NumInputs(1, 2).NumOutputs(1).EnforceInplace({{1, 0}})\<close>.\<close>

definition TSNE_schema :: OpSchema where
  "TSNE_schema =
     \<lparr>min_input = 1, max_input = 2, min_output = 1, max_output = 1,
      inplace_allowed = [], inplace_enforced = [(1, 0)]\<rparr>"

text \<open>
  The framework checks a definition against the schema of its operator type; the code of
  that check is the framework's and not among the sources. Two of its rules are in the
  schema's comments: the number of inputs and of outputs is within the declared bounds
  (lines 132-136), and a pair (input, output) declared with \<open>EnforceInplace\<close> "should
  always be in-place" (lines 137-139), that is, name the same blob. The third is how the
  framework reads a schema: an input and an output may name the same blob only where the
  schema declares the pair in-place, which the TSNE schema does for (1, 0) alone.
\<close>

definition inplace_ok :: "OpSchema \<Rightarrow> OperatorDef \<Rightarrow> nat \<Rightarrow> nat \<Rightarrow> bool" where
  "inplace_ok s d i j =
     (if def_input d ! i = def_output d ! j
      then (i, j) \<in> set (inplace_allowed s) \<or> (i, j) \<in> set (inplace_enforced s)
      else (i, j) \<notin> set (inplace_enforced s))"

definition Verify :: "OpSchema \<Rightarrow> OperatorDef \<Rightarrow> bool" where
  "Verify s d =
     (min_input s \<le> length (def_input d) \<and> length (def_input d) \<le> max_input s \<and>
      min_output s \<le> length (def_output d) \<and> length (def_output d) \<le> max_output s \<and>
      list_all (\<lambda>i. list_all (\<lambda>j. inplace_ok s d i j) [0..<length (def_output d)])
        [0..<length (def_input d)])"

subsection \<open>The operator and its constructor (lines 30-57, 112-121)\<close>

text \<open>
  The members of \<open>TSNEOp\<close>, written without the trailing underscore of the source
  (\<open>dims\<close> is \<^verbatim>\<open>dims_\<close>): the input and output blob names of the base class and the
  five parameters. \<^verbatim>\<open>is_test_\<close> is declared but never set or read, and \<^verbatim>\<open>tsne_\<close> is
  the object whose \<open>run\<close> is called; neither carries data of its own.
\<close>

record TSNEOp =
  inputs :: "string list"
  outputs :: "string list"
  dims :: int
  perplexity :: real
  theta :: real
  random_seed :: int
  max_iter :: int

definition TSNEOp_init :: "OperatorDef \<Rightarrow> error + TSNEOp" where
  "TSNEOp_init operator_def =
     (let this = \<lparr>inputs = def_input operator_def,
                  outputs = def_output operator_def,
                  dims = OP_SINGLE_ARG_int operator_def ''dims'' 0,
                  perplexity = OP_SINGLE_ARG_float operator_def ''perplexity'' 50,
                  theta = OP_SINGLE_ARG_float operator_def ''theta'' 0.5,
                  random_seed = OP_SINGLE_ARG_int operator_def ''random_seed'' 0,
                  max_iter = OP_SINGLE_ARG_int operator_def ''max_iter'' 1000\<rparr>
      in if dims this > 0 then Inr this
         else Inl (EnforceNotMet ''You should specify the number of output dimensions.''))"

text \<open>
  \<open>REGISTER_CPU_OPERATOR(TSNE, TSNEOp)\<close> (line 127): the framework instantiates \<open>TSNEOp\<close>
  for a definition named TSNE, after the definition has passed the schema.
\<close>

definition CreateOperator :: "OperatorDef \<Rightarrow> error + TSNEOp" where
  "CreateOperator operator_def =
     (if Verify TSNE_schema operator_def then TSNEOp_init operator_def
      else Inl (EnforceNotMet ''Operator def did not pass schema checking.''))"

text \<open>
  \<open>InputSize\<close>, \<open>Input\<close> and \<open>Output\<close> of the base class. \<open>RunOnDevice\<close> is entered on
  an operator the framework created, whose definition passed the schema: index 0 is in
  range of both lists of names, and index 1 is read only when there are two inputs.
\<close>

definition InputSize :: "TSNEOp \<Rightarrow> nat" where
  "InputSize this = length (inputs this)"

definition Input :: "TSNEOp \<Rightarrow> Workspace \<Rightarrow> nat \<Rightarrow> TensorCPU" where
  "Input this ws i = ws (inputs this ! i)"

definition Output :: "TSNEOp \<Rightarrow> Workspace \<Rightarrow> nat \<Rightarrow> TensorCPU" where
  "Output this ws i = ws (outputs this ! i)"

subsection \<open>RunOnDevice (lines 61-110)\<close>

text \<open>The actual arguments of \<^verbatim>\<open>tsne_->run(...)\<close>, in the order of lines 95-106. The two
  pointers are modelled by the contents of the storage they point to.\<close>

record run_args =
  arg_X :: "double list"
  arg_N :: int
  arg_D :: int
  arg_Y :: "double list"
  arg_no_dims :: int
  arg_perplexity :: real
  arg_theta :: real
  arg_rand_seed :: int
  arg_skip_random_init :: bool
  arg_max_iter :: int

text \<open>The checks on the second input (lines 78-84).\<close>

definition check_init :: "TSNEOp \<Rightarrow> TensorCPU \<Rightarrow> int \<Rightarrow> error + unit" where
  "check_init this init N =
     (if \<not> ndim init = 2 then Inl (EnforceNotMet ''init.ndim() == 2'')
      else if \<not> dim32 init 0 = N then Inl (EnforceNotMet ''init.dim32(0) == N'')
      else if \<not> dim32 init 1 = dims this then Inl (EnforceNotMet ''init.dim32(1) == dims_'')
      else if \<not> IsType_double init then Inl (EnforceNotMet ''init.IsType<double>()'')
      else Inr ())"

text \<open>
  Lines 64-106 up to the moment \<open>run\<close> is entered: the checks, the reshaping of the
  output and the evaluation of the arguments. The result is the workspace as \<open>run\<close>
  finds it and the arguments \<open>run\<close> receives; an \<open>Inl\<close> means \<open>run\<close> is not called.
\<close>

definition RunOnDevice_args :: "TSNEOp \<Rightarrow> Workspace \<Rightarrow> error + (Workspace \<times> run_args)" where
  "RunOnDevice_args this ws =
     (let skip_random_init = (InputSize this = 2);
          X = Input this ws 0
      in if \<not> ndim X = 2
         then Inl (EnforceNotMet ''TSNE expects a 2-dimensional tensor as input.'')
         else if \<not> IsType_double X
         then Inl (EnforceNotMet ''TSNE expects the input to be of data type double.'')
         else
           let N = dim32 X 0;
               D = dim32 X 1
           in case (if InputSize this = 2 then check_init this (Input this ws 1) N else Inr ()) of
                Inl e \<Rightarrow> Inl e
              | Inr _ \<Rightarrow>
                  let Y = mutable_data_double (Resize (Output this ws 0) [N, dims this]);
                      ws1 = ws(outputs this ! 0 := Y)
                  in Inr (ws1,
                          \<lparr>arg_X = data_double (Input this ws1 0),
                           arg_N = N,
                           arg_D = D,
                           arg_Y = tdata Y,
                           arg_no_dims = dims this,
                           arg_perplexity = perplexity this,
                           arg_theta = theta this,
                           arg_rand_seed = random_seed this,
                           arg_skip_random_init = skip_random_init,
                           arg_max_iter = max_iter this\<rparr>))"

subsection \<open>The embedding routine\<close>

text \<open>
  The floating-point work of the embedding is not modelled: the random starting points
  and one iteration of the optimizer are functions the model is given. So is \<open>admits\<close>,
  the routine's decision to go on with a configuration whose perplexity is below N/3: the
  spec gives that decision only roughly ("fewer than ~3\<times>perplexity usable neighbors",
  section 4.1; a positive perplexity and a positive max\_iter, section 6), so the model
  does not fix it.
\<close>

record numerics =
  admits :: "run_args \<Rightarrow> bool"
  random_init :: "int \<Rightarrow> int \<Rightarrow> int \<Rightarrow> double list"
  iteration :: "run_args \<Rightarrow> nat \<Rightarrow> double list \<Rightarrow> double list"

text \<open>
  Modelled from the spec: \<open>TSNE::run\<close>, declared in tsne.h and implemented in the bhtsne
  subfolder, is not among the sources. The spec says of it: "perplexity \<ge> N/3 \<rightarrow> fails
  fast with an invalid-configuration signal rather than running" (section 8); the input
  matrix is "read-only to the core" (section 3); the starting embedding is the output
  buffer when \<open>skip_random_init\<close> is set and random points from the seed otherwise
  (sections 5 and 6); and it "runs exactly max\_iter iterations, then returns"
  (section 4.3). Below N/3 the spec does not say exactly which configurations \<open>run\<close>
  still refuses; there the model asks \<open>admits\<close> and promises no return of its own. The
  result is the contents of the two buffers when \<open>run\<close> returns.
\<close>

definition run :: "numerics \<Rightarrow> run_args \<Rightarrow> error + (double list \<times> double list)" where
  "run K a =
     (if arg_perplexity a \<ge> of_int (arg_N a) / 3 then Inl InvalidConfiguration
      else if \<not> admits K a then Inl InvalidConfiguration
      else
        let Y0 = (if arg_skip_random_init a then arg_Y a
                  else random_init K (arg_rand_seed a) (arg_N a) (arg_no_dims a))
        in Inr (arg_X a, fold (iteration K a) [0..<nat (arg_max_iter a)] Y0))"

text \<open>
  \<open>RunOnDevice\<close>: the adapter part, the call of \<open>run\<close>, which leaves its results in the
  storage behind the two pointers it was given (the input pointer is passed through a
  \<open>const_cast\<close>, so \<open>run\<close> could write there), and \<open>return true\<close> (line 109).
\<close>

definition RunOnDevice :: "numerics \<Rightarrow> TSNEOp \<Rightarrow> Workspace \<Rightarrow> error + (bool \<times> Workspace)" where
  "RunOnDevice K this ws =
     (case RunOnDevice_args this ws of
        Inl e \<Rightarrow> Inl e
      | Inr (ws1, a) \<Rightarrow>
          (case run K a of
             Inl e \<Rightarrow> Inl e
           | Inr (X', Y') \<Rightarrow>
               let ws2 = ws1(inputs this ! 0 := (ws1 (inputs this ! 0))\<lparr>tdata := X'\<rparr>);
                   ws3 = ws2(outputs this ! 0 := (ws2 (outputs this ! 0))\<lparr>tdata := Y'\<rparr>)
               in Inr (True, ws3)))"


subsection \<open>The preconditions, in the specification's words\<close>

text \<open>
  The shape and type preconditions as the specification lists them: an invocation violates
  them when the first input is not a 2-dimensional tensor, or its element type is not
  double, or, with a second input, that input is not 2-dimensional of shape (N, dims) with
  element type double, N being the first extent of the first input. This definition
  follows the specification, not the code; \<open>RunOnDevice_args\<close> is compared with it below.
\<close>

definition violates_preconditions :: "TSNEOp \<Rightarrow> Workspace \<Rightarrow> bool" where
  "violates_preconditions this ws =
     (ndim (Input this ws 0) \<noteq> 2 \<or>
      \<not> IsType_double (Input this ws 0) \<or>
      (InputSize this = 2 \<and>
         (ndim (Input this ws 1) \<noteq> 2 \<or>
          tdims (Input this ws 1) \<noteq> [dim32 (Input this ws 0) 0, dims this] \<or>
          \<not> IsType_double (Input this ws 1))))"

subsection \<open>Concrete invocations\<close>

text \<open>
  A workspace with a 4 x 3 input of doubles in blob X and a 4 x 2 embedding in blob Y,
  three operator definitions over it (one input, two inputs, and one input with every
  optional argument left out), the operators built from them, and stand-ins for the
  numerical routines, which go on when there are at least 3 x perplexity other points.
\<close>

definition ws_ex :: Workspace where
  "ws_ex = (\<lambda>_. empty_tensor)
     (''X'' := \<lparr>tdims = [4, 3], tmeta = TDouble, tdata = [1, 2, 3, 4, 5, 6, 7, 8, 9, 10, 11, 12]\<rparr>,
      ''Y'' := \<lparr>tdims = [4, 2], tmeta = TDouble, tdata = [0, 0, 0, 0, 0, 0, 0, 0]\<rparr>)"

definition def_one :: OperatorDef where
  "def_one =
     \<lparr>def_input = [''X''], def_output = [''Y''],
      int_args = [''dims'' \<mapsto> 2, ''random_seed'' \<mapsto> 7, ''max_iter'' \<mapsto> 2],
      float_args = [''perplexity'' \<mapsto> 1, ''theta'' \<mapsto> 3]\<rparr>"

definition def_two :: OperatorDef where
  "def_two = def_one\<lparr>def_input := [''X'', ''Y'']\<rparr>"

definition def_dflt :: OperatorDef where
  "def_dflt =
     \<lparr>def_input = [''X''], def_output = [''Y''],
      int_args = [''dims'' \<mapsto> 2], float_args = Map.empty\<rparr>"

definition op_one :: TSNEOp where
  "op_one =
     \<lparr>inputs = [''X''], outputs = [''Y''], dims = 2, perplexity = 1, theta = 3,
      random_seed = 7, max_iter = 2\<rparr>"

definition op_two :: TSNEOp where
  "op_two = op_one\<lparr>inputs := [''X'', ''Y'']\<rparr>"

definition op_dflt :: TSNEOp where
  "op_dflt =
     \<lparr>inputs = [''X''], outputs = [''Y''], dims = 2, perplexity = 50, theta = 0.5,
      random_seed = 0, max_iter = 1000\<rparr>"

definition K_ex :: numerics where
  "K_ex =
     \<lparr>admits = (\<lambda>a. 3 * arg_perplexity a \<le> of_int (arg_N a - 1)),
      random_init = (\<lambda>seed N no_dims. replicate (nat (N * no_dims)) (word_of_int seed)),
      iteration = (\<lambda>a i Y. map (\<lambda>y. y + 1) Y)\<rparr>"

definition ws_one :: Workspace where
  "ws_one = ws_ex(''Y'' := \<lparr>tdims = [4, 2], tmeta = TDouble, tdata = replicate 8 9\<rparr>)"

definition ws_two :: Workspace where
  "ws_two = ws_ex(''Y'' := \<lparr>tdims = [4, 2], tmeta = TDouble, tdata = [2, 2, 2, 2, 2, 2, 2, 2]\<rparr>)"

text \<open>
  Further inputs: a workspace whose blob Y has the wrong number of columns, definitions
  without dims, with a negative dims, with two inputs whose second input is not the output
  blob, and with every optional argument out of its documented range, and the arguments
  of \<open>run\<close> that the invocations below arrive at.
\<close>

definition ws_bad :: Workspace where
  "ws_bad = ws_ex(''Y'' := \<lparr>tdims = [4, 5], tmeta = TDouble, tdata = []\<rparr>)"

definition def_none :: OperatorDef where
  "def_none = def_dflt\<lparr>int_args := Map.empty\<rparr>"

definition def_apart :: OperatorDef where
  "def_apart = def_two\<lparr>def_output := [''Z'']\<rparr>"

definition def_wild :: OperatorDef where
  "def_wild =
     \<lparr>def_input = [''X''], def_output = [''Y''],
      int_args = [''dims'' \<mapsto> 2, ''random_seed'' \<mapsto> - 3, ''max_iter'' \<mapsto> - 9],
      float_args = [''perplexity'' \<mapsto> - 5, ''theta'' \<mapsto> 7]\<rparr>"

definition op_wild :: TSNEOp where
  "op_wild =
     \<lparr>inputs = [''X''], outputs = [''Y''], dims = 2, perplexity = - 5, theta = 7,
      random_seed = - 3, max_iter = - 9\<rparr>"

definition args_wild :: run_args where
  "args_wild =
     \<lparr>arg_X = [1, 2, 3, 4, 5, 6, 7, 8, 9, 10, 11, 12], arg_N = 4, arg_D = 3,
      arg_Y = [0, 0, 0, 0, 0, 0, 0, 0], arg_no_dims = 2, arg_perplexity = - 5, arg_theta = 7,
      arg_rand_seed = - 3, arg_skip_random_init = False, arg_max_iter = - 9\<rparr>"

definition def_neg :: OperatorDef where
  "def_neg = def_dflt\<lparr>int_args := [''dims'' \<mapsto> - 1]\<rparr>"

definition args_dflt :: run_args where
  "args_dflt =
     \<lparr>arg_X = [1, 2, 3, 4, 5, 6, 7, 8, 9, 10, 11, 12], arg_N = 4, arg_D = 3,
      arg_Y = [0, 0, 0, 0, 0, 0, 0, 0], arg_no_dims = 2, arg_perplexity = 50, arg_theta = 0.5,
      arg_rand_seed = 0, arg_skip_random_init = False, arg_max_iter = 1000\<rparr>"

definition args_two :: run_args where
  "args_two =
     \<lparr>arg_X = [1, 2, 3, 4, 5, 6, 7, 8, 9, 10, 11, 12], arg_N = 4, arg_D = 3,
      arg_Y = [0, 0, 0, 0, 0, 0, 0, 0], arg_no_dims = 2, arg_perplexity = 1, arg_theta = 3,
      arg_rand_seed = 7, arg_skip_random_init = True, arg_max_iter = 2\<rparr>"

section \<open>Properties\<close>

subsection \<open>The schema and the constructor\<close>

lemma Verify_TSNE_schema:
  "Verify TSNE_schema d \<longleftrightarrow>
     (length (def_input d) = 1 \<or> length (def_input d) = 2) \<and>
     length (def_output d) = 1 \<and>
     def_input d ! 0 \<noteq> def_output d ! 0 \<and>
     (length (def_input d) = 2 \<longrightarrow> def_input d ! 1 = def_output d ! 0)"
proof (cases "length (def_output d) = 1")
  case False
  then show ?thesis by (auto simp: Verify_def TSNE_schema_def)
next
  case out: True
  have u1: "[0..<1::nat] = [0]" by simp
  have u2: "[0..<2::nat] = [0, 1]" by (simp add: upt_rec)
  consider "length (def_input d) = 1" | "length (def_input d) = 2"
    | "length (def_input d) \<noteq> 1 \<and> length (def_input d) \<noteq> 2" by blast
  then show ?thesis
  proof cases
    case 1
    then show ?thesis using out by (simp add: Verify_def TSNE_schema_def inplace_ok_def u1)
  next
    case 2
    then show ?thesis using out by (simp add: Verify_def TSNE_schema_def inplace_ok_def u1 u2)
  next
    case 3
    then show ?thesis by (auto simp: Verify_def TSNE_schema_def)
  qed
qed

lemma TSNEOp_init_Inr:
  assumes "TSNEOp_init d = Inr this"
  shows "this = \<lparr>inputs = def_input d, outputs = def_output d,
                 dims = OP_SINGLE_ARG_int d ''dims'' 0,
                 perplexity = OP_SINGLE_ARG_float d ''perplexity'' 50,
                 theta = OP_SINGLE_ARG_float d ''theta'' 0.5,
                 random_seed = OP_SINGLE_ARG_int d ''random_seed'' 0,
                 max_iter = OP_SINGLE_ARG_int d ''max_iter'' 1000\<rparr>"
    and "0 < dims this"
  using assms by (auto simp: TSNEOp_init_def Let_def split: if_splits)

lemma CreateOperator_Inr:
  assumes "CreateOperator d = Inr this"
  shows "Verify TSNE_schema d" and "TSNEOp_init d = Inr this"
  using assms by (auto simp: CreateOperator_def split: if_splits)

lemma CreateOperator_blobs:
  assumes "CreateOperator d = Inr this"
  shows "InputSize this = 1 \<or> InputSize this = 2"
    and "length (outputs this) = 1"
    and "inputs this ! 0 \<noteq> outputs this ! 0"
    and "InputSize this = 2 \<Longrightarrow> inputs this ! 1 = outputs this ! 0"
proof -
  have v: "Verify TSNE_schema d" and i: "TSNEOp_init d = Inr this"
    using CreateOperator_Inr [OF assms] by simp_all
  have io: "inputs this = def_input d" "outputs this = def_output d"
    using TSNEOp_init_Inr(1) [OF i] by simp_all
  show "InputSize this = 1 \<or> InputSize this = 2" "length (outputs this) = 1"
    "inputs this ! 0 \<noteq> outputs this ! 0"
    "InputSize this = 2 \<Longrightarrow> inputs this ! 1 = outputs this ! 0"
    using v io by (simp_all add: Verify_TSNE_schema InputSize_def)
qed

lemma check_init_Inr:
  "(check_init this init N = Inr u) \<longleftrightarrow>
     (ndim init = 2 \<and> tdims init = [N, dims this] \<and> IsType_double init)"
proof -
  have "ndim init = 2 \<Longrightarrow> (tdims init = [N, dims this]) = (dim32 init 0 = N \<and> dim32 init 1 = dims this)"
    by (cases "tdims init"; cases "tl (tdims init)") (auto simp: ndim_def dim32_def)
  then show ?thesis by (auto simp: check_init_def)
qed

lemma check_init_Inl: "check_init this init N = Inl e \<Longrightarrow> \<exists>msg. e = EnforceNotMet msg"
  by (auto simp: check_init_def split: if_splits)


lemma RunOnDevice_args_Inl_iff:
  "(\<exists>msg. RunOnDevice_args this ws = Inl (EnforceNotMet msg)) \<longleftrightarrow> violates_preconditions this ws"
proof (cases "InputSize this = 2")
  case True
  show ?thesis
  proof (cases "check_init this (Input this ws 1) (dim32 (Input this ws 0) 0)")
    case (Inl e)
    then have "\<not> (ndim (Input this ws 1) = 2 \<and>
        tdims (Input this ws 1) = [dim32 (Input this ws 0) 0, dims this] \<and>
        IsType_double (Input this ws 1))"
      using check_init_Inr [of this "Input this ws 1" "dim32 (Input this ws 0) 0" "()"] by simp
    with Inl True check_init_Inl [OF Inl] show ?thesis
      by (auto simp: RunOnDevice_args_def violates_preconditions_def Let_def)
  next
    case (Inr u)
    then have "ndim (Input this ws 1) = 2 \<and>
        tdims (Input this ws 1) = [dim32 (Input this ws 0) 0, dims this] \<and>
        IsType_double (Input this ws 1)"
      using check_init_Inr [of this "Input this ws 1" "dim32 (Input this ws 0) 0" u] by simp
    with Inr True show ?thesis
      by (auto simp: RunOnDevice_args_def violates_preconditions_def Let_def)
  qed
next
  case False
  then show ?thesis
    by (auto simp: RunOnDevice_args_def violates_preconditions_def Let_def)
qed

lemma RunOnDevice_args_Inl: "RunOnDevice_args this ws = Inl e \<Longrightarrow> \<exists>msg. e = EnforceNotMet msg"
  by (auto simp: RunOnDevice_args_def Let_def split: if_splits sum.splits dest: check_init_Inl)

lemma RunOnDevice_args_Inr_iff:
  "(\<exists>r. RunOnDevice_args this ws = Inr r) \<longleftrightarrow> \<not> violates_preconditions this ws"
proof (cases "RunOnDevice_args this ws")
  case (Inl e)
  with RunOnDevice_args_Inl [OF Inl] RunOnDevice_args_Inl_iff [of this ws] show ?thesis by auto
next
  case (Inr r)
  with RunOnDevice_args_Inl_iff [of this ws] show ?thesis by auto
qed

lemma RunOnDevice_args_Inr:
  assumes "RunOnDevice_args this ws = Inr (ws1, a)"
  shows "ws1 = ws(outputs this ! 0 :=
           mutable_data_double (Resize (Output this ws 0) [dim32 (Input this ws 0) 0, dims this]))"
    and "arg_X a = tdata (ws1 (inputs this ! 0))"
    and "arg_N a = dim32 (Input this ws 0) 0"
    and "arg_D a = dim32 (Input this ws 0) 1"
    and "arg_Y a = tdata (ws1 (outputs this ! 0))"
    and "arg_no_dims a = dims this"
    and "arg_perplexity a = perplexity this"
    and "arg_theta a = theta this"
    and "arg_rand_seed a = random_seed this"
    and "arg_skip_random_init a = (InputSize this = 2)"
    and "arg_max_iter a = max_iter this"
  using assms
  by (auto simp: RunOnDevice_args_def Let_def Input_def data_double_def
      split: if_splits sum.splits)

lemma tdims_mutable_data_Resize: "tdims (mutable_data_double (Resize t ds)) = ds"
  by (simp add: mutable_data_double_def Resize_def)

lemma run_Inl: "run K a = Inl e \<Longrightarrow> e = InvalidConfiguration"
  by (auto simp: run_def Let_def split: if_splits)

lemma run_Inr: "run K a = Inr (X', Y') \<Longrightarrow> X' = arg_X a \<and> arg_perplexity a < of_int (arg_N a) / 3"
  by (auto simp: run_def Let_def split: if_splits)


lemma RunOnDevice_Inr:
  assumes "RunOnDevice K this ws = Inr (r, ws')"
  shows "\<exists>ws1 a Y'. RunOnDevice_args this ws = Inr (ws1, a) \<and> run K a = Inr (arg_X a, Y') \<and> r \<and>
           ws' = (ws1(inputs this ! 0 := (ws1 (inputs this ! 0))\<lparr>tdata := arg_X a\<rparr>))
                   (outputs this ! 0 :=
                      ((ws1(inputs this ! 0 := (ws1 (inputs this ! 0))\<lparr>tdata := arg_X a\<rparr>))
                         (outputs this ! 0))\<lparr>tdata := Y'\<rparr>)"
proof (cases "RunOnDevice_args this ws")
  case (Inl e)
  with assms show ?thesis by (simp add: RunOnDevice_def)
next
  case (Inr p)
  obtain ws1 a where p: "p = (ws1, a)" by (cases p)
  show ?thesis
  proof (cases "run K a")
    case (Inl e)
    with assms Inr p show ?thesis by (simp add: RunOnDevice_def)
  next
    case r: (Inr q)
    obtain X' Y' where q: "q = (X', Y')" by (cases q)
    have "X' = arg_X a" using run_Inr r q by blast
    with assms Inr p r q show ?thesis by (auto simp: RunOnDevice_def Let_def)
  qed
qed

lemma RunOnDevice_Inl:
  "RunOnDevice K this ws = Inl e \<longleftrightarrow>
     RunOnDevice_args this ws = Inl e \<or>
     (\<exists>ws1 a. RunOnDevice_args this ws = Inr (ws1, a) \<and> run K a = Inl e)"
  by (auto simp: RunOnDevice_def Let_def split: sum.splits prod.splits)

subsection \<open>The concrete invocations, evaluated\<close>

lemmas create_simps = CreateOperator_def Verify_def TSNE_schema_def inplace_ok_def TSNEOp_init_def
  OP_SINGLE_ARG_int_def OP_SINGLE_ARG_float_def Let_def

lemmas run_simps = RunOnDevice_def RunOnDevice_args_def check_init_def run_def InputSize_def
  Input_def Output_def ndim_def IsType_double_def dim32_def tsize_def Resize_def
  mutable_data_double_def data_double_def Let_def

lemma create_one: "CreateOperator def_one = Inr op_one"
  by (simp add: create_simps def_one_def op_one_def)

lemma create_two: "CreateOperator def_two = Inr op_two"
  by (simp add: create_simps def_one_def def_two_def op_one_def op_two_def)

lemma create_dflt: "CreateOperator def_dflt = Inr op_dflt"
  by (simp add: create_simps def_dflt_def op_dflt_def)

lemma run_one: "RunOnDevice K_ex op_one ws_ex = Inr (True, ws_one)"
  by (simp add: run_simps op_one_def ws_ex_def ws_one_def K_ex_def empty_tensor_def
      fun_eq_iff upt_rec)

lemma run_two: "RunOnDevice K_ex op_two ws_ex = Inr (True, ws_two)"
  by (simp add: run_simps op_one_def op_two_def ws_ex_def ws_two_def K_ex_def empty_tensor_def
      fun_eq_iff upt_rec)

lemma args_dflt: "RunOnDevice_args op_dflt ws_ex = Inr (ws_ex, args_dflt)"
  by (simp add: run_simps op_dflt_def ws_ex_def args_dflt_def empty_tensor_def fun_eq_iff)

lemma args_two: "RunOnDevice_args op_two ws_ex = Inr (ws_ex, args_two)"
  by (simp add: run_simps op_one_def op_two_def ws_ex_def args_two_def empty_tensor_def fun_eq_iff)

lemma ok_ex: "\<not> violates_preconditions op_dflt ws_ex"
  by (simp add: violates_preconditions_def run_simps op_dflt_def ws_ex_def)

section \<open>The claims\<close>

text \<open>
  C1. For every invocation of the operator that passes its precondition checks, with an
  input tensor X of shape (N, D) and the parameter dims, the output tensor has exactly N
  rows and dims columns after \<open>RunOnDevice\<close> has returned. A returning invocation has
  passed the checks, so its input has a shape (N, D).
\<close>

theorem output_has_N_rows_dims_columns:
  assumes "CreateOperator d = Inr this"
    and "RunOnDevice K this ws = Inr (r, ws')"
  shows "\<exists>N D. tdims (Input this ws 0) = [N, D] \<and> tdims (Output this ws' 0) = [N, dims this]"
proof -
  obtain ws1 a Y' where a: "RunOnDevice_args this ws = Inr (ws1, a)"
    and ws': "ws' = (ws1(inputs this ! 0 := (ws1 (inputs this ! 0))\<lparr>tdata := arg_X a\<rparr>))
                   (outputs this ! 0 :=
                      ((ws1(inputs this ! 0 := (ws1 (inputs this ! 0))\<lparr>tdata := arg_X a\<rparr>))
                         (outputs this ! 0))\<lparr>tdata := Y'\<rparr>)"
    using RunOnDevice_Inr [OF assms(2)] by blast
  have "\<not> violates_preconditions this ws"
    using a RunOnDevice_args_Inr_iff [of this ws] by auto
  then have "ndim (Input this ws 0) = 2"
    by (simp add: violates_preconditions_def)
  then obtain N D where nd: "tdims (Input this ws 0) = [N, D]"
    by (cases "tdims (Input this ws 0)"; cases "tl (tdims (Input this ws 0))")
       (auto simp: ndim_def)
  have "tdims (Output this ws' 0) = [dim32 (Input this ws 0) 0, dims this]"
    by (simp add: ws' Output_def RunOnDevice_args_Inr(1) [OF a] tdims_mutable_data_Resize)
  with nd show ?thesis by (simp add: dim32_def)
qed

theorem output_has_N_rows_dims_columns_witness:
  "CreateOperator def_one = Inr op_one \<and> RunOnDevice K_ex op_one ws_ex = Inr (True, ws_one) \<and>
   tdims (Input op_one ws_ex 0) = [4, 3] \<and> tdims (Output op_one ws_one 0) = [4, dims op_one]"
proof -
  have x: "tdims (Input op_one ws_ex 0) = [4, 3]"
    by (simp add: Input_def op_one_def ws_ex_def)
  from output_has_N_rows_dims_columns [OF create_one run_one] x create_one run_one show ?thesis by simp
qed

text \<open>
  C2. \<open>RunOnDevice\<close> aborts with the fatal configuration error of \<open>CAFFE_ENFORCE\<close> (and
  computes no embedding) if and only if the first input is not a 2-dimensional tensor, or
  its element type is not double, or, when a second input is supplied, that input is not
  2-dimensional of shape (N, dims) with element type double; an invocation that violates
  these preconditions never reaches the call of \<open>run\<close>.
\<close>

theorem precondition_violation_aborts:
  assumes "CreateOperator d = Inr this"
  shows "((\<exists>msg. RunOnDevice K this ws = Inl (EnforceNotMet msg)) \<longleftrightarrow>
            violates_preconditions this ws) \<and>
         (violates_preconditions this ws \<longrightarrow>
            (\<exists>msg. RunOnDevice_args this ws = Inl (EnforceNotMet msg)))"
proof -
  have "(\<exists>msg. RunOnDevice K this ws = Inl (EnforceNotMet msg)) \<longleftrightarrow>
        (\<exists>msg. RunOnDevice_args this ws = Inl (EnforceNotMet msg))"
    by (auto simp: RunOnDevice_Inl dest: run_Inl)
  then show ?thesis using RunOnDevice_args_Inl_iff [of this ws] by simp
qed

theorem precondition_violation_aborts_witness:
  "CreateOperator def_two = Inr op_two \<and> violates_preconditions op_two ws_bad \<and>
   RunOnDevice K_ex op_two ws_bad = Inl (EnforceNotMet ''init.dim32(1) == dims_'') \<and>
   RunOnDevice_args op_two ws_bad = Inl (EnforceNotMet ''init.dim32(1) == dims_'')"
proof -
  have v: "violates_preconditions op_two ws_bad"
    by (simp add: violates_preconditions_def run_simps op_one_def op_two_def ws_bad_def ws_ex_def)
  have a: "RunOnDevice_args op_two ws_bad = Inl (EnforceNotMet ''init.dim32(1) == dims_'')"
    by (simp add: run_simps op_one_def op_two_def ws_bad_def ws_ex_def)
  have "\<exists>msg. RunOnDevice K_ex op_two ws_bad = Inl (EnforceNotMet msg)"
    using precondition_violation_aborts [OF create_two, of K_ex ws_bad] v by simp
  then show ?thesis using v a create_two by (auto simp: RunOnDevice_def)
qed

text \<open>
  C3. Constructing the operator fails with a fatal configuration error whenever the
  argument dims is omitted or is not a positive integer: the declared default 0 fails the
  check, so dims is positive, and is the supplied argument, in every operator that was
  constructed.
\<close>

theorem dims_must_be_positive:
  "(int_args d ''dims'' = None \<or> (\<exists>v. int_args d ''dims'' = Some v \<and> v \<le> 0) \<longrightarrow>
      (\<exists>msg. TSNEOp_init d = Inl (EnforceNotMet msg)) \<and>
      (\<exists>msg. CreateOperator d = Inl (EnforceNotMet msg))) \<and>
   (\<forall>this. TSNEOp_init d = Inr this \<or> CreateOperator d = Inr this \<longrightarrow>
      0 < dims this \<and> int_args d ''dims'' = Some (dims this))"
  by (auto simp: TSNEOp_init_def CreateOperator_def OP_SINGLE_ARG_int_def Let_def
      split: option.splits if_splits)

theorem dims_must_be_positive_witness:
  "int_args def_none ''dims'' = None \<and>
   TSNEOp_init def_none = Inl (EnforceNotMet ''You should specify the number of output dimensions.'') \<and>
   int_args def_neg ''dims'' = Some (- 1) \<and>
   TSNEOp_init def_neg = Inl (EnforceNotMet ''You should specify the number of output dimensions.'') \<and>
   CreateOperator def_one = Inr op_one \<and> 0 < dims op_one \<and> int_args def_one ''dims'' = Some 2"
proof -
  have n: "int_args def_none ''dims'' = None"
    by (simp add: def_none_def)
  have m: "int_args def_neg ''dims'' = Some (- 1)"
    by (simp add: def_neg_def)
  have e: "\<exists>msg. TSNEOp_init def_none = Inl (EnforceNotMet msg)"
    "\<exists>msg. TSNEOp_init def_neg = Inl (EnforceNotMet msg)"
    using dims_must_be_positive [of def_none] dims_must_be_positive [of def_neg] n m by simp_all
  have p: "0 < dims op_one \<and> int_args def_one ''dims'' = Some (dims op_one)"
    using dims_must_be_positive [of def_one] create_one by blast
  have d: "dims op_one = 2" by (simp add: op_one_def)
  from e n m p d create_one show ?thesis
    by (auto simp: TSNEOp_init_def Let_def split: if_splits)
qed

text \<open>
  C4. For every invocation with perplexity \<ge> N/3, N being the number of rows of the
  input, the operation fails instead of computing an embedding: with the invalid
  configuration signal of \<open>run\<close> when the shape and type preconditions hold, with the
  error of the violated precondition otherwise.
\<close>

theorem perplexity_too_large_fails_fast:
  assumes "CreateOperator d = Inr this"
    and "tdims (Input this ws 0) = [N, D]"
    and "perplexity this \<ge> of_int N / 3"
  shows "(\<exists>e. RunOnDevice K this ws = Inl e) \<and>
         (\<not> violates_preconditions this ws \<longrightarrow> RunOnDevice K this ws = Inl InvalidConfiguration)"
proof (cases "RunOnDevice_args this ws")
  case (Inl e)
  then have "RunOnDevice K this ws = Inl e" by (simp add: RunOnDevice_def)
  moreover have "violates_preconditions this ws"
    using Inl RunOnDevice_args_Inr_iff [of this ws] by auto
  ultimately show ?thesis by simp
next
  case (Inr p)
  obtain ws1 a where p: "p = (ws1, a)" by (cases p)
  have a: "RunOnDevice_args this ws = Inr (ws1, a)" using Inr p by simp
  have "arg_N a = N" "arg_perplexity a = perplexity this"
    using RunOnDevice_args_Inr(3,7) [OF a] assms(2) by (simp_all add: dim32_def)
  then have "run K a = Inl InvalidConfiguration"
    using assms(3) by (simp add: run_def)
  then show ?thesis using a by (simp add: RunOnDevice_def)
qed

theorem perplexity_too_large_fails_fast_witness:
  "CreateOperator def_dflt = Inr op_dflt \<and> tdims (Input op_dflt ws_ex 0) = [4, 3] \<and>
   perplexity op_dflt \<ge> of_int 4 / 3 \<and> \<not> violates_preconditions op_dflt ws_ex \<and>
   RunOnDevice K_ex op_dflt ws_ex = Inl InvalidConfiguration"
proof -
  have x: "tdims (Input op_dflt ws_ex 0) = [4, 3]"
    by (simp add: Input_def op_dflt_def ws_ex_def)
  have p: "perplexity op_dflt \<ge> of_int 4 / 3"
    by (simp add: op_dflt_def)
  from perplexity_too_large_fails_fast [OF create_dflt x p, of K_ex] ok_ex x p create_dflt
  show ?thesis by simp
qed

text \<open>
  C5. Whether the random initialisation is skipped is determined by the number of inputs
  alone: \<open>run\<close> receives \<open>skip_random_init = true\<close> exactly when the operator has two
  inputs and \<open>false\<close> exactly when it has one, whatever its arguments are.
\<close>

theorem skip_random_init_iff_two_inputs:
  assumes "CreateOperator d = Inr this"
    and "RunOnDevice_args this ws = Inr (ws1, a)"
  shows "(arg_skip_random_init a \<longleftrightarrow> length (def_input d) = 2) \<and>
         (\<not> arg_skip_random_init a \<longleftrightarrow> length (def_input d) = 1)"
proof -
  have "inputs this = def_input d"
    using TSNEOp_init_Inr(1) [OF CreateOperator_Inr(2) [OF assms(1)]] by simp
  moreover have "InputSize this = 1 \<or> InputSize this = 2"
    using CreateOperator_blobs(1) [OF assms(1)] .
  ultimately show ?thesis
    using RunOnDevice_args_Inr(10) [OF assms(2)] by (auto simp: InputSize_def)
qed

theorem skip_random_init_iff_two_inputs_witness:
  "CreateOperator def_two = Inr op_two \<and> RunOnDevice_args op_two ws_ex = Inr (ws_ex, args_two) \<and>
   arg_skip_random_init args_two \<and> length (def_input def_two) = 2"
  using skip_random_init_iff_two_inputs [OF create_two args_two] create_two args_two
  by (simp add: def_two_def)

text \<open>
  C6. An argument that the operator definition leaves out reaches \<open>run\<close> with its
  default: perplexity 50, theta 0.5, random seed 0, 1000 iterations.
\<close>

theorem unspecified_arguments_default:
  assumes "CreateOperator d = Inr this"
    and "RunOnDevice_args this ws = Inr (ws1, a)"
  shows "(float_args d ''perplexity'' = None \<longrightarrow> arg_perplexity a = 50) \<and>
         (float_args d ''theta'' = None \<longrightarrow> arg_theta a = 0.5) \<and>
         (int_args d ''random_seed'' = None \<longrightarrow> arg_rand_seed a = 0) \<and>
         (int_args d ''max_iter'' = None \<longrightarrow> arg_max_iter a = 1000)"
proof -
  note i = TSNEOp_init_Inr(1) [OF CreateOperator_Inr(2) [OF assms(1)]]
  have "perplexity this = OP_SINGLE_ARG_float d ''perplexity'' 50"
    "theta this = OP_SINGLE_ARG_float d ''theta'' 0.5"
    "random_seed this = OP_SINGLE_ARG_int d ''random_seed'' 0"
    "max_iter this = OP_SINGLE_ARG_int d ''max_iter'' 1000"
    by (subst i, simp)+
  then show ?thesis
    using RunOnDevice_args_Inr(7,8,9,11) [OF assms(2)]
    by (simp add: OP_SINGLE_ARG_float_def OP_SINGLE_ARG_int_def)
qed

theorem unspecified_arguments_default_witness:
  "CreateOperator def_dflt = Inr op_dflt \<and> RunOnDevice_args op_dflt ws_ex = Inr (ws_ex, args_dflt) \<and>
   float_args def_dflt ''perplexity'' = None \<and> float_args def_dflt ''theta'' = None \<and>
   int_args def_dflt ''random_seed'' = None \<and> int_args def_dflt ''max_iter'' = None \<and>
   arg_perplexity args_dflt = 50 \<and> arg_theta args_dflt = 0.5 \<and>
   arg_rand_seed args_dflt = 0 \<and> arg_max_iter args_dflt = 1000"
  using unspecified_arguments_default [OF create_dflt args_dflt] create_dflt args_dflt
  by (simp add: def_dflt_def)

text \<open>
  C7. With a second input, the second input and the first output are the same blob: the
  schema rejects a two-input definition that names them apart, and in every two-input
  operator that was created the embedding \<open>run\<close> returns is stored in the blob of the
  second input.
\<close>

theorem second_input_is_output_blob:
  "(length (def_input d) = 2 \<and> def_input d ! 1 \<noteq> def_output d ! 0 \<longrightarrow>
      (\<exists>msg. CreateOperator d = Inl (EnforceNotMet msg))) \<and>
   (CreateOperator d = Inr this \<and> InputSize this = 2 \<longrightarrow>
      inputs this ! 1 = outputs this ! 0 \<and>
      (\<forall>r ws'. RunOnDevice K this ws = Inr (r, ws') \<longrightarrow>
         Input this ws' 1 = Output this ws' 0 \<and>
         (\<exists>ws1 a X'. RunOnDevice_args this ws = Inr (ws1, a) \<and>
            run K a = Inr (X', tdata (Input this ws' 1)))))"
proof (intro conjI impI)
  assume "length (def_input d) = 2 \<and> def_input d ! 1 \<noteq> def_output d ! 0"
  then have "\<not> Verify TSNE_schema d" by (simp add: Verify_TSNE_schema)
  then show "\<exists>msg. CreateOperator d = Inl (EnforceNotMet msg)"
    by (simp add: CreateOperator_def)
next
  assume c: "CreateOperator d = Inr this \<and> InputSize this = 2"
  then show "inputs this ! 1 = outputs this ! 0"
    using CreateOperator_blobs(4) by blast
next
  assume c: "CreateOperator d = Inr this \<and> InputSize this = 2"
  then have eq: "inputs this ! 1 = outputs this ! 0"
    using CreateOperator_blobs(4) by blast
  show "\<forall>r ws'. RunOnDevice K this ws = Inr (r, ws') \<longrightarrow>
         Input this ws' 1 = Output this ws' 0 \<and>
         (\<exists>ws1 a X'. RunOnDevice_args this ws = Inr (ws1, a) \<and>
            run K a = Inr (X', tdata (Input this ws' 1)))"
  proof (intro allI impI)
    fix r ws'
    assume "RunOnDevice K this ws = Inr (r, ws')"
    from RunOnDevice_Inr [OF this] obtain ws1 a Y' where
      a: "RunOnDevice_args this ws = Inr (ws1, a)" and r: "run K a = Inr (arg_X a, Y')"
      and "tdata (ws' (outputs this ! 0)) = Y'"
      by auto
    then show "Input this ws' 1 = Output this ws' 0 \<and>
         (\<exists>ws1 a X'. RunOnDevice_args this ws = Inr (ws1, a) \<and>
            run K a = Inr (X', tdata (Input this ws' 1)))"
      using eq by (auto simp: Input_def Output_def)
  qed
qed

theorem second_input_is_output_blob_witness:
  "CreateOperator def_two = Inr op_two \<and> InputSize op_two = 2 \<and>
   inputs op_two ! 1 = outputs op_two ! 0 \<and>
   RunOnDevice K_ex op_two ws_ex = Inr (True, ws_two) \<and>
   Input op_two ws_two 1 = Output op_two ws_two 0 \<and>
   RunOnDevice_args op_two ws_ex = Inr (ws_ex, args_two) \<and>
   run K_ex args_two = Inr (arg_X args_two, tdata (Input op_two ws_two 1)) \<and>
   length (def_input def_apart) = 2 \<and> def_input def_apart ! 1 \<noteq> def_output def_apart ! 0 \<and>
   CreateOperator def_apart = Inl (EnforceNotMet ''Operator def did not pass schema checking.'')"
proof -
  have s: "InputSize op_two = 2"
    by (simp add: InputSize_def op_two_def)
  have z: "length (def_input def_apart) = 2 \<and> def_input def_apart ! 1 \<noteq> def_output def_apart ! 0"
    by (simp add: def_apart_def def_two_def def_one_def)
  have "\<exists>msg. CreateOperator def_apart = Inl (EnforceNotMet msg)"
    using second_input_is_output_blob [of def_apart] z by blast
  then have e: "CreateOperator def_apart =
      Inl (EnforceNotMet ''Operator def did not pass schema checking.'')"
    by (simp add: create_simps def_apart_def def_two_def def_one_def upt_rec)
  have i: "inputs op_two ! 1 = outputs op_two ! 0 \<and> Input op_two ws_two 1 = Output op_two ws_two 0"
    using second_input_is_output_blob [of def_two op_two K_ex ws_ex] create_two s run_two by blast
  have r: "run K_ex args_two = Inr (arg_X args_two, tdata (Input op_two ws_two 1))"
    by (simp add: run_def args_two_def K_ex_def Input_def op_two_def ws_two_def upt_rec)
  from e z i r s create_two run_two args_two show ?thesis by simp
qed

text \<open>
  C8. The input matrix is read-only: after \<open>RunOnDevice\<close> has returned, the first input
  holds the tensor it held before, although \<open>run\<close> was handed a pointer it could write
  through.
\<close>

theorem input_matrix_unchanged:
  assumes "CreateOperator d = Inr this"
    and "RunOnDevice K this ws = Inr (r, ws')"
  shows "Input this ws' 0 = Input this ws 0"
proof -
  obtain ws1 a Y' where a: "RunOnDevice_args this ws = Inr (ws1, a)"
    and ws': "ws' = (ws1(inputs this ! 0 := (ws1 (inputs this ! 0))\<lparr>tdata := arg_X a\<rparr>))
                   (outputs this ! 0 :=
                      ((ws1(inputs this ! 0 := (ws1 (inputs this ! 0))\<lparr>tdata := arg_X a\<rparr>))
                         (outputs this ! 0))\<lparr>tdata := Y'\<rparr>)"
    using RunOnDevice_Inr [OF assms(2)] by blast
  have ne: "inputs this ! 0 \<noteq> outputs this ! 0"
    using CreateOperator_blobs(3) [OF assms(1)] .
  have "ws1 (inputs this ! 0) = ws (inputs this ! 0)"
    using ne by (simp add: RunOnDevice_args_Inr(1) [OF a])
  then show ?thesis
    using ne RunOnDevice_args_Inr(2) [OF a] by (simp add: ws' Input_def)
qed

theorem input_matrix_unchanged_witness:
  "CreateOperator def_two = Inr op_two \<and> RunOnDevice K_ex op_two ws_ex = Inr (True, ws_two) \<and>
   Input op_two ws_two 0 = Input op_two ws_ex 0 \<and>
   tdata (Input op_two ws_two 0) = [1, 2, 3, 4, 5, 6, 7, 8, 9, 10, 11, 12]"
proof -
  have "tdata (Input op_two ws_ex 0) = [1, 2, 3, 4, 5, 6, 7, 8, 9, 10, 11, 12]"
    by (simp add: Input_def op_two_def ws_ex_def)
  then show ?thesis
    using input_matrix_unchanged [OF create_two run_two] create_two run_two by simp
qed




text \<open>
  C10. The adapter validates no range but that of dims. For a definition the schema
  accepts, the operator is created if and only if dims is supplied and positive, whatever
  the other arguments are; \<open>run\<close> is called if and only if the shape and type
  preconditions hold; and a supplied perplexity, theta, random seed or number of
  iterations reaches \<open>run\<close> as it was supplied, neither checked nor clamped.
\<close>

theorem arguments_forwarded_unchecked:
  assumes "Verify TSNE_schema d"
  shows "((\<exists>this. CreateOperator d = Inr this) \<longleftrightarrow>
            (\<exists>n. int_args d ''dims'' = Some n \<and> 0 < n)) \<and>
         (\<forall>this. CreateOperator d = Inr this \<longrightarrow>
            ((\<exists>ws1 a. RunOnDevice_args this ws = Inr (ws1, a)) \<longleftrightarrow>
               \<not> violates_preconditions this ws) \<and>
            (\<forall>ws1 a. RunOnDevice_args this ws = Inr (ws1, a) \<longrightarrow>
               (\<forall>n. int_args d ''dims'' = Some n \<longrightarrow> arg_no_dims a = n) \<and>
               (\<forall>p. float_args d ''perplexity'' = Some p \<longrightarrow> arg_perplexity a = p) \<and>
               (\<forall>t. float_args d ''theta'' = Some t \<longrightarrow> arg_theta a = t) \<and>
               (\<forall>s. int_args d ''random_seed'' = Some s \<longrightarrow> arg_rand_seed a = s) \<and>
               (\<forall>m. int_args d ''max_iter'' = Some m \<longrightarrow> arg_max_iter a = m)))"
proof -
  have create: "(\<exists>this. CreateOperator d = Inr this) \<longleftrightarrow>
      (\<exists>n. int_args d ''dims'' = Some n \<and> 0 < n)"
    using assms
    by (auto simp: CreateOperator_def TSNEOp_init_def OP_SINGLE_ARG_int_def Let_def
        split: option.splits)
  have forwarded:
    "(\<forall>n. int_args d ''dims'' = Some n \<longrightarrow> arg_no_dims a = n) \<and>
     (\<forall>p. float_args d ''perplexity'' = Some p \<longrightarrow> arg_perplexity a = p) \<and>
     (\<forall>t. float_args d ''theta'' = Some t \<longrightarrow> arg_theta a = t) \<and>
     (\<forall>s. int_args d ''random_seed'' = Some s \<longrightarrow> arg_rand_seed a = s) \<and>
     (\<forall>m. int_args d ''max_iter'' = Some m \<longrightarrow> arg_max_iter a = m)"
    if c: "CreateOperator d = Inr this" and a: "RunOnDevice_args this ws = Inr (ws1, a)"
    for this ws1 a
  proof -
    note i = TSNEOp_init_Inr(1) [OF CreateOperator_Inr(2) [OF c]]
    have "dims this = OP_SINGLE_ARG_int d ''dims'' 0"
      "perplexity this = OP_SINGLE_ARG_float d ''perplexity'' 50"
      "theta this = OP_SINGLE_ARG_float d ''theta'' 0.5"
      "random_seed this = OP_SINGLE_ARG_int d ''random_seed'' 0"
      "max_iter this = OP_SINGLE_ARG_int d ''max_iter'' 1000"
      by (subst i, simp)+
    then show ?thesis
      using RunOnDevice_args_Inr(6,7,8,9,11) [OF a]
      by (simp add: OP_SINGLE_ARG_float_def OP_SINGLE_ARG_int_def)
  qed
  have reached: "(\<exists>ws1 a. RunOnDevice_args this ws = Inr (ws1, a)) \<longleftrightarrow>
      \<not> violates_preconditions this ws" for this
    using RunOnDevice_args_Inr_iff [of this ws] by auto
  show ?thesis
    using create forwarded reached by blast
qed

theorem arguments_forwarded_unchecked_witness:
  "Verify TSNE_schema def_wild \<and> int_args def_wild ''dims'' = Some 2 \<and>
   float_args def_wild ''perplexity'' = Some (- 5) \<and> float_args def_wild ''theta'' = Some 7 \<and>
   int_args def_wild ''random_seed'' = Some (- 3) \<and> int_args def_wild ''max_iter'' = Some (- 9) \<and>
   CreateOperator def_wild = Inr op_wild \<and> \<not> violates_preconditions op_wild ws_ex \<and>
   RunOnDevice_args op_wild ws_ex = Inr (ws_ex, args_wild) \<and>
   arg_no_dims args_wild = 2 \<and> arg_perplexity args_wild = - 5 \<and> arg_theta args_wild = 7 \<and>
   arg_rand_seed args_wild = - 3 \<and> arg_max_iter args_wild = - 9"
proof -
  have v: "Verify TSNE_schema def_wild"
    by (simp add: create_simps def_wild_def)
  have g: "int_args def_wild ''dims'' = Some 2" "float_args def_wild ''perplexity'' = Some (- 5)"
    "float_args def_wild ''theta'' = Some 7" "int_args def_wild ''random_seed'' = Some (- 3)"
    "int_args def_wild ''max_iter'' = Some (- 9)"
    by (simp_all add: def_wild_def)
  have c: "CreateOperator def_wild = Inr op_wild"
    by (simp add: create_simps def_wild_def op_wild_def)
  have a: "RunOnDevice_args op_wild ws_ex = Inr (ws_ex, args_wild)"
    by (simp add: run_simps op_wild_def ws_ex_def args_wild_def empty_tensor_def fun_eq_iff)
  from arguments_forwarded_unchecked [OF v, of ws_ex] c a v g show ?thesis by auto
qed

end
